theory Spec2Isabelle
  imports Main "HOL-Library.Char_ord" "HOL-Library.List_Lexorder" "HOL-Library.AList"
begin

section \<open>Python values shared by the notebooks\<close>

text \<open>
  The exceptions that reach a notebook function are Python's built-in ones, raised inside
  library calls: \<open>KeyError\<close> by a dictionary lookup of a missing key, \<open>ValueError\<close> by
  the assignment of column names of the wrong length or by a date conversion,
  \<open>AttributeError\<close> by the \<open>.dt\<close> accessor on a column that is not datetime-like,
  \<open>IndexError\<close> by a \<open>str.format\<close> field with no argument left, and
  \<open>FileNotFoundError\<close> by a write into a missing directory.
\<close>

datatype error = KeyError | ValueError | IndexError | AttributeError | FileNotFoundError

text \<open>
  \<open>template.format(*args)\<close> for templates whose only braces are \<open>{}\<close> fields: each
  field takes the next positional argument.
\<close>

fun py_format :: "string \<Rightarrow> string list \<Rightarrow> error + string" where
  "py_format [] args = Inr []"
| "py_format [c] args = Inr [c]"
| "py_format (c # d # rest) args =
     (if c = CHR ''{'' \<and> d = CHR ''}'' then
        (case args of
           [] \<Rightarrow> Inl IndexError
         | a # args' \<Rightarrow>
             (case py_format rest args' of Inl e \<Rightarrow> Inl e | Inr s \<Rightarrow> Inr (a @ s)))
      else
        (case py_format (d # rest) args of Inl e \<Rightarrow> Inl e | Inr s \<Rightarrow> Inr (c # s)))"

text \<open>\<open>str(n)\<close> for a non-negative integer.\<close>

definition digit_char :: "nat \<Rightarrow> char" where
  "digit_char n = char_of (48 + n)"

fun str_nat :: "nat \<Rightarrow> string" where
  "str_nat n = (if n < 10 then [digit_char n] else str_nat (n div 10) @ [digit_char (n mod 10)])"

declare str_nat.simps [simp del]


definition upper_char :: "char \<Rightarrow> char" where
  "upper_char c =
     (case map_of (zip ''abcdefghijklmnopqrstuvwxyz'' ''ABCDEFGHIJKLMNOPQRSTUVWXYZ'') c of
        None \<Rightarrow> c | Some u \<Rightarrow> u)"


definition upper :: "string \<Rightarrow> string" where
  "upper s = map upper_char s"


section \<open>Time-series notebook: the BigQuery query strings\<close>

text \<open>The inline sample query of the exploration cell.\<close>

definition bq_query :: string where
  "bq_query = ''\<newline>#standardSQL\<newline>SELECT\<newline>  symbol,\<newline>  Date,\<newline>  direction,\<newline>  close_values_prior_260\<newline>FROM\<newline>  `stock_market.eps_percent_change_sp500`\<newline>LIMIT\<newline>  100\<newline>''"

text \<open>
  \<open>_create_split(phase)\<close>. The body first picks \<open>floor, ceiling\<close> (TRAIN is the default,
  overwritten for VALID and TEST), then formats them into the WHERE clause.
\<close>

definition split_bounds :: "string \<Rightarrow> string \<times> string" where
  "split_bounds phase =
     (let (floor, ceiling) = (''2002-11-01'', ''2010-07-01'') in
      if phase = ''VALID'' then (''2010-07-01'', ''2011-09-01'')
      else if phase = ''TEST'' then (''2011-09-01'', ''2012-11-30'')
      else (floor, ceiling))"

definition split_template :: string where
  "split_template = ''\<newline>    WHERE Date >= '{}'\<newline>    AND Date < '{}'\<newline>    ''"

definition create_split :: "string \<Rightarrow> error + string" where
  "create_split phase =
     (case split_bounds phase of (floor, ceiling) \<Rightarrow> py_format split_template [floor, ceiling])"

text \<open>\<open>create_query(phase)\<close>: the fixed base query followed by the split clause.\<close>

definition basequery :: string where
  "basequery = ''\<newline>    #standardSQL\<newline>    SELECT\<newline>      symbol,\<newline>      Date,\<newline>      direction,\<newline>      close_values_prior_260\<newline>    FROM\<newline>      `stock_market.eps_percent_change_sp500`\<newline>    ''"

definition create_query :: "string \<Rightarrow> error + string" where
  "create_query phase =
     (case create_split phase of Inl e \<Rightarrow> Inl e | Inr clause \<Rightarrow> Inr (basequery @ clause))"

subsection \<open>Reading a query\<close>

text \<open>
  The words of a query text (maximal runs of letters, digits and underscores), in upper
  case, SQL keywords being case-insensitive.
\<close>

definition is_ident_char :: "char \<Rightarrow> bool" where
  "is_ident_char c =
     (c \<in> set ''abcdefghijklmnopqrstuvwxyzABCDEFGHIJKLMNOPQRSTUVWXYZ0123456789_'')"

fun sql_tokens :: "string \<Rightarrow> string \<Rightarrow> string list" where
  "sql_tokens cur [] = (if cur = [] then [] else [cur])"
| "sql_tokens cur (c # cs) =
     (if is_ident_char c then sql_tokens (cur @ [c]) cs
      else (if cur = [] then [] else [cur]) @ sql_tokens [] cs)"

definition sql_words :: "string \<Rightarrow> string list" where
  "sql_words q = map upper (sql_tokens [] q)"

text \<open>Keywords that start a data-modification, DDL or access-control statement.\<close>

definition modifying_keywords :: "string list" where
  "modifying_keywords =
     [''INSERT'', ''UPDATE'', ''DELETE'', ''MERGE'', ''TRUNCATE'',
      ''CREATE'', ''DROP'', ''ALTER'', ''GRANT'', ''REVOKE'', ''CALL'', ''EXPORT'', ''LOAD'']"

text \<open>
  A query text is a single read-only SELECT when it has exactly one SELECT keyword, no
  modifying keyword and no statement separator.
\<close>

definition single_select :: "string \<Rightarrow> bool" where
  "single_select q =
     (filter (\<lambda>w. w = ''SELECT'' \<or> w \<in> set modifying_keywords) (sql_words q) = [''SELECT'']
      \<and> CHR '';'' \<notin> set q)"

text \<open>The lines of a text, and the first line that is not blank.\<close>

fun split_lines :: "string \<Rightarrow> string \<Rightarrow> string list" where
  "split_lines cur [] = [cur]"
| "split_lines cur (c # cs) =
     (if c = CHR ''\<newline>'' then cur # split_lines [] cs else split_lines (cur @ [c]) cs)"

definition strip_left :: "string \<Rightarrow> string" where
  "strip_left s = dropWhile (\<lambda>c. c = CHR '' '') s"

definition first_line :: "string \<Rightarrow> string" where
  "first_line q =
     (case filter (\<lambda>l. l \<noteq> []) (map strip_left (split_lines [] q)) of [] \<Rightarrow> [] | l # _ \<Rightarrow> l)"

text \<open>
  The dataset and table names that follow the FROM keywords of a query, from its words:
  the tables it reads.
\<close>

fun tables_read :: "string list \<Rightarrow> (string \<times> string) list" where
  "tables_read (w # d # t # ws) =
     (if upper w = ''FROM'' then (d, t) # tables_read ws else tables_read (d # t # ws))"
| "tables_read ws = []"

text \<open>
  A query text reads only the stock table when it opens with the \<open>#standardSQL\<close> line, is
  a single read-only SELECT, and its one FROM names \<open>stock_market.eps_percent_change_sp500\<close>.
\<close>

definition reads_only_stock_table :: "string \<Rightarrow> bool" where
  "reads_only_stock_table q =
     (first_line q = ''#standardSQL'' \<and> single_select q
      \<and> tables_read (sql_tokens [] q) = [(''stock_market'', ''eps_percent_change_sp500'')])"

text \<open>Membership of an ISO date string in the half-open range of a split.\<close>

definition in_split :: "string \<Rightarrow> string \<Rightarrow> bool" where
  "in_split phase d = (fst (split_bounds phase) \<le> d \<and> d < snd (split_bounds phase))"


section \<open>Time-series notebook: cleaning and features\<close>

text \<open>
  A dataframe is the list of its rows. The query selects four columns: \<open>symbol\<close> and
  \<open>direction\<close> are nullable strings (\<open>None\<close> is a missing value), \<open>Date\<close> holds
  whatever the client library delivers (type \<open>'d\<close>), and \<open>close_values_prior_260\<close>
  is an array of floats (type \<open>'a\<close>; float arithmetic stays a parameter, see
  \<open>float_ops\<close>). A calendar date is (year, month, day).
\<close>

type_synonym date = "nat \<times> nat \<times> nat"

record ('d, 'a) stock_row =
  symbol :: "string option"
  Date :: 'd
  direction :: "string option"
  close_values_prior_260 :: "'a list"

record ('d, 'a) labelled_row = "('d, 'a) stock_row" +
  direction_numeric :: int

text \<open>
  \<open>Series.dt.strftime("%Y-%m-%d")\<close> on one timestamp: zero-padded year, month and day.
  A missing timestamp (NaT) formats to a missing string.
\<close>

definition zero_pad :: "nat \<Rightarrow> string \<Rightarrow> string" where
  "zero_pad w s = replicate (w - length s) (CHR ''0'') @ s"

definition strftime_Ymd :: "date \<Rightarrow> string" where
  "strftime_Ymd d =
     (case d of (y, m, dd) \<Rightarrow>
        zero_pad 4 (str_nat y) @ ''-'' @ zero_pad 2 (str_nat m) @ ''-'' @ zero_pad 2 (str_nat dd))"

text \<open>
  The lambda of \<open>clean_data\<close>: a lookup in the dictionary
  \<open>{"DOWN": 0, "STAY": 1, "UP": 2}\<close>, which raises \<open>KeyError\<close> on any other key, a missing
  value included.
\<close>

definition direction_codes :: "(string \<times> int) list" where
  "direction_codes = [(''DOWN'', 0), (''STAY'', 1), (''UP'', 2)]"

definition direction_code :: "string option \<Rightarrow> error + int" where
  "direction_code x =
     (case x of
        None \<Rightarrow> Inl KeyError
      | Some k \<Rightarrow> (case map_of direction_codes k of None \<Rightarrow> Inl KeyError | Some n \<Rightarrow> Inr n))"

text \<open>\<open>Series.apply(f)\<close>: \<open>f\<close> on each entry in order; the first exception ends it.\<close>

fun series_apply :: "('x \<Rightarrow> error + 'y) \<Rightarrow> 'x list \<Rightarrow> error + 'y list" where
  "series_apply f [] = Inr []"
| "series_apply f (x # xs) =
     (case f x of
        Inl e \<Rightarrow> Inl e
      | Inr y \<Rightarrow> (case series_apply f xs of Inl e \<Rightarrow> Inl e | Inr ys \<Rightarrow> Inr (y # ys)))"

text \<open>
  \<open>clean_data(input_df)\<close>. The two \<open>Date\<close> lines run first. The parameter
  \<open>to_datetime col\<close> stands for \<open>pd.to_datetime(col, errors="coerce")\<close> together with the
  \<open>.dt\<close> accessor on its result: \<open>Inr t\<close> when the column converts, \<open>t i\<close> being entry
  \<open>i\<close> (an entry that cannot be parsed is coerced to NaT, \<open>None\<close>); \<open>Inl e\<close> when
  pandas raises all the same, as it does on a column that mixes UTC offsets. Only then comes
  the lookup of the directions. The function works on a copy and the model returns a new
  list, so the input is unchanged by construction.
\<close>

definition clean_data ::
  "('d list \<Rightarrow> error + (nat \<Rightarrow> date option)) \<Rightarrow> ('d, 'a) stock_row list
     \<Rightarrow> error + (string option, 'a) labelled_row list" where
  "clean_data to_datetime input_df =
     (let df = input_df in
      case to_datetime (map Date df) of
        Inl e \<Rightarrow> Inl e
      | Inr timestamp \<Rightarrow>
          (let dates = map (\<lambda>i. map_option strftime_Ymd (timestamp i)) [0..<length df] in
           case series_apply direction_code (map direction df) of
             Inl e \<Rightarrow> Inl e
           | Inr codes \<Rightarrow>
               Inr (map (\<lambda>(r, d, n).
                      \<lparr>symbol = symbol r, Date = d, direction = direction r,
                       close_values_prior_260 = close_values_prior_260 r,
                       direction_numeric = n\<rparr>)
                    (zip df (zip dates codes)))))"

text \<open>Whether a cleaned row still holds a missing value in a scalar column.\<close>

definition row_has_na :: "(string option, 'a) labelled_row \<Rightarrow> bool" where
  "row_has_na r = (symbol r = None \<or> Date r = None \<or> direction r = None)"

subsection \<open>Features\<close>











subsection \<open>The export cell\<close>







subsection \<open>Instances\<close>

text \<open>
  Instances used to run the model on concrete frames; every general result below holds for
  all instances. \<open>to_datetime_dates\<close> is the conversion of a column that already holds
  dates: a date stays, a missing value is NaT. \<open>to_datetime_offsets\<close> is the conversion
  of a column of datetimes that carry a UTC offset in minutes: pandas raises \<open>ValueError\<close>
  when the offsets differ (without \<open>utc=True\<close>), whatever \<open>errors\<close> is set to.
  \<open>sample_ops\<close> stands in for float arithmetic with integers.
\<close>

definition to_datetime_dates :: "date option list \<Rightarrow> error + (nat \<Rightarrow> date option)" where
  "to_datetime_dates col = Inr (\<lambda>i. if i < length col then col ! i else None)"






section \<open>DCGAN notebook: the training loop\<close>























section \<open>CI/CD notebook: the Cloud Build configuration\<close>

text \<open>
  The file \<open>cloudbuild_vertex.yaml\<close> that the notebook writes, as the YAML document it
  parses to (comments are not part of a document). A key whose value is left as a \<open>TODO\<close>
  comment is null.
\<close>

datatype yaml = YNull | YStr string | YSeq "yaml list" | YMap "(string \<times> yaml) list"

definition cloudbuild_vertex :: yaml where
  "cloudbuild_vertex =
     YMap
       [(''steps'', YSeq
          [YMap [(''name'', YNull), (''args'', YNull), (''dir'', YNull)],
           YMap [(''name'', YStr ''gcr.io/$PROJECT_ID/kfp-cli-vertex''),
                 (''args'', YSeq [YStr ''-c'', YStr ''dsl-compile-v2 # TODO\<newline>'']),
                 (''env'', YSeq
                    [YStr ''PIPELINE_ROOT=gs://$PROJECT_ID-vertex/pipeline'',
                     YStr ''PROJECT_ID=$PROJECT_ID'',
                     YStr ''REGION=$_REGION'',
                     YStr ''SERVING_CONTAINER_IMAGE_URI=us-docker.pkg.dev/vertex-ai/prediction/sklearn-cpu.0-20:latest'',
                     YStr ''TRAINING_CONTAINER_IMAGE_URI=gcr.io/$PROJECT_ID/trainer_image_covertype_vertex:latest'',
                     YStr ''TRAINING_FILE_PATH=gs://$PROJECT_ID-vertex/data/training/dataset.csv'',
                     YStr ''VALIDATION_FILE_PATH=gs://$PROJECT_ID-vertex/data/validation/dataset.csv'']),
                 (''dir'', YStr ''pipeline_vertex'')],
           YMap [(''name'', YStr ''gcr.io/$PROJECT_ID/kfp-cli-vertex''),
                 (''args'', YSeq [YStr ''-c'',
                    YStr ''python kfp-cli_vertex/run_pipeline.py  # TODO\<newline>''])]]),
        (''images'', YNull),
        (''timeout'', YStr ''10800s'')]"

text \<open>
  The cells that set the substitutions and submit the build:
  \<open>SUBSTITUTIONS = f"_REGION={REGION}"\<close> and
  \<open>!gcloud builds submit . --config cloudbuild_vertex.yaml --substitutions {SUBSTITUTIONS}\<close>.
\<close>

definition SUBSTITUTIONS :: "string \<Rightarrow> string" where
  "SUBSTITUTIONS REGION = ''_REGION='' @ REGION"

definition gcloud_builds_submit :: "string \<Rightarrow> string" where
  "gcloud_builds_submit REGION =
     ''gcloud builds submit . --config cloudbuild_vertex.yaml --substitutions ''
     @ SUBSTITUTIONS REGION"

subsection \<open>Reading the configuration\<close>

definition yaml_keys :: "yaml \<Rightarrow> string list" where
  "yaml_keys y = (case y of YMap kvs \<Rightarrow> map fst kvs | _ \<Rightarrow> [])"

definition yaml_get :: "string \<Rightarrow> yaml \<Rightarrow> yaml" where
  "yaml_get k y =
     (case y of YMap kvs \<Rightarrow> (case map_of kvs k of Some v \<Rightarrow> v | None \<Rightarrow> YNull) | _ \<Rightarrow> YNull)"

definition yaml_items :: "yaml \<Rightarrow> yaml list" where
  "yaml_items y = (case y of YSeq ys \<Rightarrow> ys | _ \<Rightarrow> [])"

text \<open>Every string scalar of a document.\<close>

fun yaml_strings :: "yaml \<Rightarrow> string list" where
  "yaml_strings YNull = []"
| "yaml_strings (YStr s) = [s]"
| "yaml_strings (YSeq ys) = concat (map yaml_strings ys)"
| "yaml_strings (YMap kvs) = concat (map (\<lambda>kv. yaml_strings (snd kv)) kvs)"

text \<open>
  The substitution variables a string refers to: after each \<open>$\<close>, the run of upper-case
  letters, digits and underscores.
\<close>

definition is_var_char :: "char \<Rightarrow> bool" where
  "is_var_char c = (c \<in> set ''ABCDEFGHIJKLMNOPQRSTUVWXYZ0123456789_'')"

fun var_refs :: "string \<Rightarrow> string list" where
  "var_refs [] = []"
| "var_refs (c # cs) =
     (if c = CHR ''$'' then takeWhile is_var_char cs # var_refs cs else var_refs cs)"

definition config_variables :: "yaml \<Rightarrow> string list" where
  "config_variables y = remdups (concat (map var_refs (yaml_strings y)))"

text \<open>The words of a command line, and of the shell script a step runs (after \<open>-c\<close>).\<close>

fun split_words :: "string \<Rightarrow> string \<Rightarrow> string list" where
  "split_words cur [] = (if cur = [] then [] else [cur])"
| "split_words cur (c # cs) =
     (if c = CHR '' '' \<or> c = CHR ''\<newline>''
      then (if cur = [] then [] else [cur]) @ split_words [] cs
      else split_words (cur @ [c]) cs)"

definition step_script :: "yaml \<Rightarrow> string list" where
  "step_script step =
     (case yaml_items (yaml_get ''args'' step) of
        [YStr flag, YStr script] \<Rightarrow> split_words [] script
      | _ \<Rightarrow> [])"

text \<open>
  The value of \<open>--substitutions\<close> as \<open>gcloud\<close> reads it: pairs \<open>KEY=VALUE\<close> separated
  by commas, each split at its first \<open>=\<close>.
\<close>

fun split_commas :: "string \<Rightarrow> string \<Rightarrow> string list" where
  "split_commas cur [] = [cur]"
| "split_commas cur (c # cs) =
     (if c = CHR '','' then cur # split_commas [] cs else split_commas (cur @ [c]) cs)"

definition substitution_pairs :: "string \<Rightarrow> (string \<times> string) list" where
  "substitution_pairs s =
     map (\<lambda>kv. (takeWhile (\<lambda>c. c \<noteq> CHR ''='') kv, drop 1 (dropWhile (\<lambda>c. c \<noteq> CHR ''='') kv)))
         (split_commas [] s)"


section \<open>Properties of the query strings\<close>

lemma py_format_split_template:
  "py_format split_template [f, c] =
     Inr (''\<newline>    WHERE Date >= '' @ [CHR 0x27] @ f @ [CHR 0x27]
          @ ''\<newline>    AND Date < '' @ [CHR 0x27] @ c @ [CHR 0x27] @ ''\<newline>    '')"
  by (simp add: split_template_def)

lemma split_bounds_cases:
  "split_bounds phase =
     (if phase = ''VALID'' then (''2010-07-01'', ''2011-09-01'')
      else if phase = ''TEST'' then (''2011-09-01'', ''2012-11-30'')
      else (''2002-11-01'', ''2010-07-01''))"
  unfolding split_bounds_def Let_def prod.case by (rule refl)

lemma split_bounds_default:
  "phase \<noteq> ''VALID'' \<Longrightarrow> phase \<noteq> ''TEST'' \<Longrightarrow>
   split_bounds phase = (''2002-11-01'', ''2010-07-01'')"
  by (simp add: split_bounds_cases)

lemma split_bounds_named:
  "split_bounds ''VALID'' = (''2010-07-01'', ''2011-09-01'')"
  "split_bounds ''TEST'' = (''2011-09-01'', ''2012-11-30'')"
  "split_bounds ''TRAIN'' = (''2002-11-01'', ''2010-07-01'')"
  by (simp_all add: split_bounds_cases)

lemma bounds_increasing:
  "''2002-11-01'' < ''2010-07-01''" "''2010-07-01'' < ''2011-09-01''"
  "''2011-09-01'' < ''2012-11-30''"
  by simp_all

lemma create_split_value:
  "create_split phase =
     Inr (''\<newline>    WHERE Date >= '' @ [CHR 0x27] @ fst (split_bounds phase) @ [CHR 0x27]
          @ ''\<newline>    AND Date < '' @ [CHR 0x27] @ snd (split_bounds phase) @ [CHR 0x27]
          @ ''\<newline>    '')"
  unfolding create_split_def by (cases "split_bounds phase") (simp add: py_format_split_template)

lemma create_query_value:
  "create_query phase =
     Inr (basequery @ ''\<newline>    WHERE Date >= '' @ [CHR 0x27] @ fst (split_bounds phase)
          @ [CHR 0x27] @ ''\<newline>    AND Date < '' @ [CHR 0x27] @ snd (split_bounds phase)
          @ [CHR 0x27] @ ''\<newline>    '')"
  by (simp add: create_query_def create_split_value)

lemma create_query_default:
  "phase \<noteq> ''VALID'' \<Longrightarrow> phase \<noteq> ''TEST'' \<Longrightarrow> create_query phase = create_query ''TRAIN''"
  using split_bounds_default [of phase] by (simp add: create_query_value split_bounds_named)

lemma bound_tokens:
  "sql_tokens [] ''2002-11-01'' = [''2002'', ''11'', ''01'']"
  "sql_tokens [] ''2010-07-01'' = [''2010'', ''07'', ''01'']"
  "sql_tokens [] ''2011-09-01'' = [''2011'', ''09'', ''01'']"
  "sql_tokens [] ''2012-11-30'' = [''2012'', ''11'', ''30'']"
  by code_simp+

lemma named_queries_read_only:
  "case create_query ''TRAIN'' of Inl e \<Rightarrow> False | Inr q \<Rightarrow> reads_only_stock_table q
     \<and> sql_tokens [] q =
         [''standardSQL'', ''SELECT'', ''symbol'', ''Date'', ''direction'',
          ''close_values_prior_260'', ''FROM'', ''stock_market'', ''eps_percent_change_sp500'',
          ''WHERE'', ''Date'', ''2002'', ''11'', ''01'', ''AND'', ''Date'', ''2010'', ''07'', ''01'']"
  "case create_query ''VALID'' of Inl e \<Rightarrow> False | Inr q \<Rightarrow> reads_only_stock_table q
     \<and> sql_tokens [] q =
         [''standardSQL'', ''SELECT'', ''symbol'', ''Date'', ''direction'',
          ''close_values_prior_260'', ''FROM'', ''stock_market'', ''eps_percent_change_sp500'',
          ''WHERE'', ''Date'', ''2010'', ''07'', ''01'', ''AND'', ''Date'', ''2011'', ''09'', ''01'']"
  "case create_query ''TEST'' of Inl e \<Rightarrow> False | Inr q \<Rightarrow> reads_only_stock_table q
     \<and> sql_tokens [] q =
         [''standardSQL'', ''SELECT'', ''symbol'', ''Date'', ''direction'',
          ''close_values_prior_260'', ''FROM'', ''stock_market'', ''eps_percent_change_sp500'',
          ''WHERE'', ''Date'', ''2011'', ''09'', ''01'', ''AND'', ''Date'', ''2012'', ''11'', ''30'']"
  by code_simp+

lemma bq_query_read_only:
  "reads_only_stock_table bq_query
   \<and> sql_tokens [] bq_query =
       [''standardSQL'', ''SELECT'', ''symbol'', ''Date'', ''direction'',
        ''close_values_prior_260'', ''FROM'', ''stock_market'', ''eps_percent_change_sp500'',
        ''LIMIT'', ''100'']"
  by code_simp

lemma every_query_read_only:
  "case create_query phase of Inl e \<Rightarrow> False | Inr q \<Rightarrow> reads_only_stock_table q
     \<and> sql_tokens [] q =
         [''standardSQL'', ''SELECT'', ''symbol'', ''Date'', ''direction'',
          ''close_values_prior_260'', ''FROM'', ''stock_market'', ''eps_percent_change_sp500'',
          ''WHERE'', ''Date'']
         @ sql_tokens [] (fst (split_bounds phase)) @ [''AND'', ''Date'']
         @ sql_tokens [] (snd (split_bounds phase))"
proof (cases "phase = ''VALID''")
  case True
  then show ?thesis
    using named_queries_read_only(2)
    by (simp add: split_bounds_named bound_tokens del: sql_tokens.simps split: sum.splits)
next
  case nv: False
  show ?thesis
  proof (cases "phase = ''TEST''")
    case True
    then show ?thesis
      using named_queries_read_only(3)
      by (simp add: split_bounds_named bound_tokens del: sql_tokens.simps split: sum.splits)
  next
    case False
    with nv have "create_query phase = create_query ''TRAIN''" by (rule create_query_default)
    then show ?thesis
      using named_queries_read_only(1) split_bounds_default [OF nv False]
      by (simp add: bound_tokens del: sql_tokens.simps split: sum.splits)
  qed
qed

text \<open>
  Claim C3. Every query string the notebook sends to BigQuery is read-only and inline. For
  every phase string, \<open>create_query\<close> returns the fixed base query followed by the clause
  of \<open>_create_split\<close>, which is the WHERE clause \<open>Date >= floor AND Date < ceiling\<close> for
  one of the three pairs of bounds. The words of the text are exactly those of one SELECT of
  the four columns FROM \<open>stock_market.eps_percent_change_sp500\<close> WHERE \<open>Date\<close> and the
  floor AND \<open>Date\<close> and the ceiling; it opens with \<open>#standardSQL\<close> and holds no
  data-modification or DDL keyword and no statement separator. The inline \<open>bq_query\<close> is
  the same SELECT with LIMIT 100 in place of the WHERE clause.
\<close>

theorem create_query_read_only:
  "(\<exists>clause q.
      split_bounds phase \<in> {(''2002-11-01'', ''2010-07-01''), (''2010-07-01'', ''2011-09-01''),
                              (''2011-09-01'', ''2012-11-30'')}
      \<and> clause = ''\<newline>    WHERE Date >= '' @ [CHR 0x27] @ fst (split_bounds phase) @ [CHR 0x27]
                  @ ''\<newline>    AND Date < '' @ [CHR 0x27] @ snd (split_bounds phase) @ [CHR 0x27]
                  @ ''\<newline>    ''
      \<and> create_split phase = Inr clause \<and> q = basequery @ clause
      \<and> create_query phase = Inr q
      \<and> sql_tokens [] q =
          [''standardSQL'', ''SELECT'', ''symbol'', ''Date'', ''direction'',
           ''close_values_prior_260'', ''FROM'', ''stock_market'', ''eps_percent_change_sp500'',
           ''WHERE'', ''Date'']
          @ sql_tokens [] (fst (split_bounds phase)) @ [''AND'', ''Date'']
          @ sql_tokens [] (snd (split_bounds phase))
      \<and> first_line q = ''#standardSQL'' \<and> single_select q
      \<and> tables_read (sql_tokens [] q) = [(''stock_market'', ''eps_percent_change_sp500'')])
   \<and> sql_tokens [] bq_query =
       [''standardSQL'', ''SELECT'', ''symbol'', ''Date'', ''direction'',
        ''close_values_prior_260'', ''FROM'', ''stock_market'', ''eps_percent_change_sp500'',
        ''LIMIT'', ''100'']
   \<and> first_line bq_query = ''#standardSQL'' \<and> single_select bq_query
   \<and> tables_read (sql_tokens [] bq_query) = [(''stock_market'', ''eps_percent_change_sp500'')]"
proof -
  define clause where "clause = ''\<newline>    WHERE Date >= '' @ [CHR 0x27] @ fst (split_bounds phase)
      @ [CHR 0x27] @ ''\<newline>    AND Date < '' @ [CHR 0x27] @ snd (split_bounds phase)
      @ [CHR 0x27] @ ''\<newline>    ''"
  have b: "split_bounds phase \<in> {(''2002-11-01'', ''2010-07-01''),
      (''2010-07-01'', ''2011-09-01''), (''2011-09-01'', ''2012-11-30'')}"
    by (simp add: split_bounds_cases)
  have c: "create_split phase = Inr clause"
    unfolding clause_def by (rule create_split_value)
  then have q: "create_query phase = Inr (basequery @ clause)"
    by (simp add: create_query_def)
  from every_query_read_only [of phase] q
  have r: "reads_only_stock_table (basequery @ clause)"
    and t: "sql_tokens [] (basequery @ clause) =
         [''standardSQL'', ''SELECT'', ''symbol'', ''Date'', ''direction'',
          ''close_values_prior_260'', ''FROM'', ''stock_market'', ''eps_percent_change_sp500'',
          ''WHERE'', ''Date'']
         @ sql_tokens [] (fst (split_bounds phase)) @ [''AND'', ''Date'']
         @ sql_tokens [] (snd (split_bounds phase))"
    by simp_all
  from b c q r t clause_def bq_query_read_only show ?thesis
    unfolding reads_only_stock_table_def by blast
qed

text \<open>
  Claim C5. \<open>_create_split\<close> returns a clause for every phase string: the VALID clause
  for \<open>VALID\<close>, the TEST clause for \<open>TEST\<close>, and the TRAIN clause for every other string.
  The three half-open date ranges are contiguous (each ceiling is the next floor), pairwise
  disjoint, and together cover exactly 2002-11-01 up to 2012-11-30.
\<close>

theorem create_split_total_default:
  "create_split ''VALID'' =
     Inr ''\<newline>    WHERE Date >= '2010-07-01'\<newline>    AND Date < '2011-09-01'\<newline>    ''
   \<and> create_split ''TEST'' =
     Inr ''\<newline>    WHERE Date >= '2011-09-01'\<newline>    AND Date < '2012-11-30'\<newline>    ''
   \<and> (phase \<noteq> ''VALID'' \<and> phase \<noteq> ''TEST'' \<longrightarrow> create_split phase =
     Inr ''\<newline>    WHERE Date >= '2002-11-01'\<newline>    AND Date < '2010-07-01'\<newline>    '')
   \<and> (\<exists>clause. create_split phase = Inr clause)
   \<and> snd (split_bounds ''TRAIN'') = fst (split_bounds ''VALID'')
   \<and> snd (split_bounds ''VALID'') = fst (split_bounds ''TEST'')
   \<and> \<not> (in_split ''TRAIN'' d \<and> in_split ''VALID'' d)
   \<and> \<not> (in_split ''VALID'' d \<and> in_split ''TEST'' d)
   \<and> \<not> (in_split ''TRAIN'' d \<and> in_split ''TEST'' d)
   \<and> ((in_split ''TRAIN'' d \<or> in_split ''VALID'' d \<or> in_split ''TEST'' d)
        = (''2002-11-01'' \<le> d \<and> d < ''2012-11-30''))"
proof -
  have valid: "create_split ''VALID'' =
     Inr ''\<newline>    WHERE Date >= '2010-07-01'\<newline>    AND Date < '2011-09-01'\<newline>    ''"
    by (simp add: create_split_value split_bounds_named)
  have test: "create_split ''TEST'' =
     Inr ''\<newline>    WHERE Date >= '2011-09-01'\<newline>    AND Date < '2012-11-30'\<newline>    ''"
    by (simp add: create_split_value split_bounds_named)
  have other: "phase \<noteq> ''VALID'' \<and> phase \<noteq> ''TEST'' \<longrightarrow> create_split phase =
     Inr ''\<newline>    WHERE Date >= '2002-11-01'\<newline>    AND Date < '2010-07-01'\<newline>    ''"
    by (simp add: create_split_value split_bounds_default)
  have total: "\<exists>clause. create_split phase = Inr clause"
    by (simp add: create_split_value)
  have contiguous: "snd (split_bounds ''TRAIN'') = fst (split_bounds ''VALID'')"
    "snd (split_bounds ''VALID'') = fst (split_bounds ''TEST'')"
    by (simp_all add: split_bounds_named)
  have tr: "in_split ''TRAIN'' d = (''2002-11-01'' \<le> d \<and> d < ''2010-07-01'')"
    and va: "in_split ''VALID'' d = (''2010-07-01'' \<le> d \<and> d < ''2011-09-01'')"
    and te: "in_split ''TEST'' d = (''2011-09-01'' \<le> d \<and> d < ''2012-11-30'')"
    by (simp_all only: in_split_def split_bounds_named fst_conv snd_conv)
  have d1: "\<not> (in_split ''TRAIN'' d \<and> in_split ''VALID'' d)"
    unfolding tr va using not_le by blast
  have d2: "\<not> (in_split ''VALID'' d \<and> in_split ''TEST'' d)"
    unfolding va te using not_le by blast
  have d3: "\<not> (in_split ''TRAIN'' d \<and> in_split ''TEST'' d)"
  proof
    assume "in_split ''TRAIN'' d \<and> in_split ''TEST'' d"
    then have a: "d < ''2010-07-01''" and b: "''2011-09-01'' \<le> d"
      unfolding tr te by blast+
    from a bounds_increasing(2) have "d < ''2011-09-01''" by (rule less_trans)
    with b show False using not_le by blast
  qed
  have cover: "(in_split ''TRAIN'' d \<or> in_split ''VALID'' d \<or> in_split ''TEST'' d)
        = (''2002-11-01'' \<le> d \<and> d < ''2012-11-30'')"
  proof
    assume "in_split ''TRAIN'' d \<or> in_split ''VALID'' d \<or> in_split ''TEST'' d"
    then consider "''2002-11-01'' \<le> d \<and> d < ''2010-07-01''"
      | "''2010-07-01'' \<le> d \<and> d < ''2011-09-01''"
      | "''2011-09-01'' \<le> d \<and> d < ''2012-11-30''"
      unfolding tr va te by blast
    then show "''2002-11-01'' \<le> d \<and> d < ''2012-11-30''"
    proof cases
      case 1
      then have "d < ''2011-09-01''" using bounds_increasing(2) less_trans by blast
      then have "d < ''2012-11-30''" using bounds_increasing(3) less_trans by blast
      with 1 show ?thesis by blast
    next
      case 2
      then have "d < ''2012-11-30''" using bounds_increasing(3) less_trans by blast
      moreover have "''2002-11-01'' \<le> d"
        using 2 bounds_increasing(1) less_le_trans less_imp_le by blast
      ultimately show ?thesis by blast
    next
      case 3
      have "''2002-11-01'' < ''2011-09-01''"
        using bounds_increasing(1) bounds_increasing(2) by (rule less_trans)
      then have "''2002-11-01'' \<le> d" using 3 less_le_trans less_imp_le by blast
      with 3 show ?thesis by blast
    qed
  next
    assume h: "''2002-11-01'' \<le> d \<and> d < ''2012-11-30''"
    show "in_split ''TRAIN'' d \<or> in_split ''VALID'' d \<or> in_split ''TEST'' d"
      unfolding tr va te using h not_le by blast
  qed
  from valid test other total contiguous d1 d2 d3 cover show ?thesis by blast
qed

theorem create_split_total_default_witness:
  "''TRAIN'' \<noteq> ''VALID'' \<and> ''TRAIN'' \<noteq> ''TEST''
   \<and> create_split ''TRAIN'' =
     Inr ''\<newline>    WHERE Date >= '2002-11-01'\<newline>    AND Date < '2010-07-01'\<newline>    ''
   \<and> in_split ''VALID'' ''2010-07-01'' \<and> \<not> in_split ''TRAIN'' ''2010-07-01''
   \<and> \<not> in_split ''TEST'' ''2010-07-01''"
proof -
  have h: "''TRAIN'' \<noteq> ''VALID'' \<and> ''TRAIN'' \<noteq> ''TEST''" by simp
  have v: "in_split ''VALID'' ''2010-07-01''"
    by (simp add: in_split_def split_bounds_named)
  show ?thesis
    using h v create_split_total_default [of "''TRAIN''" "''2010-07-01''"] by blast
qed

text \<open>
  Claim C10, as stated, denies that any notebook function is a deterministic pure function
  of its arguments. \<open>create_query\<close> is one: its embedding takes the phase and nothing
  else (no session state, no random source, no service call), and at \<open>VALID\<close> it yields
  this one text.
\<close>

theorem create_query_pure_counterexample:
  "create_query ''VALID'' = Inr
     ''\<newline>    #standardSQL\<newline>    SELECT\<newline>      symbol,\<newline>      Date,\<newline>      direction,\<newline>      close_values_prior_260\<newline>    FROM\<newline>      `stock_market.eps_percent_change_sp500`\<newline>    \<newline>    WHERE Date >= '2010-07-01'\<newline>    AND Date < '2011-09-01'\<newline>    ''"
  by (simp add: create_query_value split_bounds_named basequery_def)

text \<open>
  Claim C10, amended. The notebooks fix no contract for what training achieves, but their
  helper \<open>create_query\<close> is a deterministic pure function with a testable contract: its
  result is one of three fixed query texts, chosen by the phase argument alone.
\<close>

theorem create_query_closed_form:
  "create_query phase = Inr
     (if phase = ''VALID'' then
        ''\<newline>    #standardSQL\<newline>    SELECT\<newline>      symbol,\<newline>      Date,\<newline>      direction,\<newline>      close_values_prior_260\<newline>    FROM\<newline>      `stock_market.eps_percent_change_sp500`\<newline>    \<newline>    WHERE Date >= '2010-07-01'\<newline>    AND Date < '2011-09-01'\<newline>    ''
      else if phase = ''TEST'' then
        ''\<newline>    #standardSQL\<newline>    SELECT\<newline>      symbol,\<newline>      Date,\<newline>      direction,\<newline>      close_values_prior_260\<newline>    FROM\<newline>      `stock_market.eps_percent_change_sp500`\<newline>    \<newline>    WHERE Date >= '2011-09-01'\<newline>    AND Date < '2012-11-30'\<newline>    ''
      else
        ''\<newline>    #standardSQL\<newline>    SELECT\<newline>      symbol,\<newline>      Date,\<newline>      direction,\<newline>      close_values_prior_260\<newline>    FROM\<newline>      `stock_market.eps_percent_change_sp500`\<newline>    \<newline>    WHERE Date >= '2002-11-01'\<newline>    AND Date < '2010-07-01'\<newline>    '')"
proof (cases "phase = ''VALID''")
  case True
  then show ?thesis by (simp add: create_query_value split_bounds_named basequery_def)
next
  case nv: False
  show ?thesis
  proof (cases "phase = ''TEST''")
    case True
    then show ?thesis by (simp add: create_query_value split_bounds_named basequery_def)
  next
    case False
    with nv show ?thesis by (simp add: create_query_value split_bounds_default basequery_def)
  qed
qed


section \<open>Properties of cleaning and features\<close>

lemma direction_code_cases:
  "direction_code x =
     (if x = Some ''DOWN'' then Inr 0 else if x = Some ''STAY'' then Inr 1
      else if x = Some ''UP'' then Inr 2 else Inl KeyError)"
  by (cases x) (simp_all add: direction_code_def direction_codes_def)



lemma series_apply_length:
  "series_apply f xs = Inr ys \<Longrightarrow> length ys = length xs"
  by (induction xs arbitrary: ys) (auto split: sum.splits)



lemma clean_data_length:
  "clean_data td df = Inr out \<Longrightarrow> length out = length df"
  by (auto simp: clean_data_def Let_def split: sum.splits dest: series_apply_length)















section \<open>Properties of the export cell\<close>













section \<open>Properties of the training loop\<close>

























section \<open>Cleaning, features and errors: the claims\<close>

text \<open>
  Claim C1. The cell above \<open>clean_data\<close> documents three steps, the first being the removal
  of every inf or NA value. The body has no such step: a row whose \<open>Date\<close> is missing comes
  back, still missing its date, with the label column added. (No row is ever dropped, see
  \<open>clean_data_length\<close>.)
\<close>

theorem clean_data_keeps_missing_values:
  "clean_data to_datetime_dates
     [\<lparr>symbol = Some ''IBM'', Date = None, direction = Some ''UP'',
       close_values_prior_260 = [1 :: int]\<rparr>]
   = Inr [\<lparr>symbol = Some ''IBM'', Date = None, direction = Some ''UP'',
           close_values_prior_260 = [1], direction_numeric = 2\<rparr>]
   \<and> row_has_na \<lparr>symbol = Some ''IBM'', Date = None, direction = Some ''UP'',
           close_values_prior_260 = [1 :: int], direction_numeric = 2\<rparr>"
  by (simp add: clean_data_def Let_def direction_code_cases to_datetime_dates_def row_has_na_def)








section \<open>Training and files: the claims\<close>








section \<open>Properties of the Cloud Build configuration\<close>

lemma split_words_no_blank:
  "CHR '' '' \<notin> set xs \<Longrightarrow> CHR ''\<newline>'' \<notin> set xs \<Longrightarrow>
   split_words cur xs = (if cur @ xs = [] then [] else [cur @ xs])"
  by (induction xs arbitrary: cur) auto

lemma split_commas_no_comma:
  "CHR '','' \<notin> set xs \<Longrightarrow> split_commas cur xs = [cur @ xs]"
  by (induction xs arbitrary: cur) auto

text \<open>
  Claim C6, as stated, has the first step build the trainer image and the listed images
  pushed. In the file the first step has no builder, no arguments and no directory, and
  no image is listed.
\<close>

theorem cloud_build_first_step_blank_counterexample:
  "yaml_items (yaml_get ''steps'' cloudbuild_vertex) ! 0
     = YMap [(''name'', YNull), (''args'', YNull), (''dir'', YNull)]
   \<and> step_script (yaml_items (yaml_get ''steps'' cloudbuild_vertex) ! 0) = []
   \<and> yaml_get ''images'' cloudbuild_vertex = YNull
   \<and> yaml_items (yaml_get ''images'' cloudbuild_vertex) = []"
  by code_simp

text \<open>
  Claim C6, amended. The configuration lists three steps in this order: one whose name,
  arguments and directory are left blank; one on the builder
  \<open>gcr.io/$PROJECT_ID/kfp-cli-vertex\<close> whose script starts with \<open>dsl-compile-v2\<close>, in
  directory \<open>pipeline_vertex\<close>; and one on the same builder whose script starts with
  \<open>python kfp-cli_vertex/run_pipeline.py\<close>. The \<open>images\<close> key follows the steps and has
  no value.
\<close>

theorem cloud_build_steps_in_order:
  "length (yaml_items (yaml_get ''steps'' cloudbuild_vertex)) = 3
   \<and> map (yaml_get ''name'') (yaml_items (yaml_get ''steps'' cloudbuild_vertex))
       = [YNull, YStr ''gcr.io/$PROJECT_ID/kfp-cli-vertex'',
          YStr ''gcr.io/$PROJECT_ID/kfp-cli-vertex'']
   \<and> map (yaml_get ''args'') (yaml_items (yaml_get ''steps'' cloudbuild_vertex))
       = [YNull,
          YSeq [YStr ''-c'', YStr ''dsl-compile-v2 # TODO\<newline>''],
          YSeq [YStr ''-c'', YStr ''python kfp-cli_vertex/run_pipeline.py  # TODO\<newline>'']]
   \<and> map (yaml_get ''dir'') (yaml_items (yaml_get ''steps'' cloudbuild_vertex))
       = [YNull, YStr ''pipeline_vertex'', YNull]
   \<and> map step_script (yaml_items (yaml_get ''steps'' cloudbuild_vertex))
       = [[], [''dsl-compile-v2'', ''#'', ''TODO''],
          [''python'', ''kfp-cli_vertex/run_pipeline.py'', ''#'', ''TODO'']]
   \<and> yaml_keys cloudbuild_vertex = [''steps'', ''images'', ''timeout'']
   \<and> yaml_get ''images'' cloudbuild_vertex = YNull"
  by code_simp

text \<open>
  Claim C7, as stated, has the file use the four fields steps, substitutions, images and
  timeout, and declare an images list. The file has no \<open>substitutions\<close> key, and its
  \<open>images\<close> key has no value.
\<close>

theorem cloud_build_no_substitutions_key_counterexample:
  "yaml_keys cloudbuild_vertex = [''steps'', ''images'', ''timeout'']
   \<and> ''substitutions'' \<notin> set (yaml_keys cloudbuild_vertex)
   \<and> yaml_get ''images'' cloudbuild_vertex = YNull
   \<and> yaml_items (yaml_get ''images'' cloudbuild_vertex) = []"
  by code_simp

text \<open>
  Claim C7, amended. The top-level keys of the configuration are exactly \<open>steps\<close>,
  \<open>images\<close> and \<open>timeout\<close>: three steps, no value for \<open>images\<close>, and the timeout
  \<open>10800s\<close>. The only substitution variables it refers to are \<open>$PROJECT_ID\<close> and
  \<open>$_REGION\<close>, of which \<open>_REGION\<close> is the user-defined one. The notebook's submit
  command names this file and passes \<open>--substitutions _REGION=\<close> followed by the value
  of \<open>REGION\<close>, which \<open>gcloud\<close> reads as the single pair of \<open>_REGION\<close> and that
  value.
\<close>

theorem cloud_build_schema_fields:
  "yaml_keys cloudbuild_vertex = [''steps'', ''images'', ''timeout'']
   \<and> length (yaml_items (yaml_get ''steps'' cloudbuild_vertex)) = 3
   \<and> yaml_get ''images'' cloudbuild_vertex = YNull
   \<and> yaml_get ''timeout'' cloudbuild_vertex = YStr ''10800s''
   \<and> set (config_variables cloudbuild_vertex) = {''PROJECT_ID'', ''_REGION''}
   \<and> filter (\<lambda>v. take 1 v = ''_'') (config_variables cloudbuild_vertex) = [''_REGION'']
   \<and> (CHR '','' \<notin> set region \<longrightarrow>
        substitution_pairs (SUBSTITUTIONS region) = [(''_REGION'', region)])
   \<and> (CHR '' '' \<notin> set region \<and> CHR ''\<newline>'' \<notin> set region \<longrightarrow>
        split_words [] (gcloud_builds_submit region)
          = [''gcloud'', ''builds'', ''submit'', ''.'', ''--config'', ''cloudbuild_vertex.yaml'',
             ''--substitutions'', ''_REGION='' @ region])"
proof -
  have a: "yaml_keys cloudbuild_vertex = [''steps'', ''images'', ''timeout'']
   \<and> length (yaml_items (yaml_get ''steps'' cloudbuild_vertex)) = 3
   \<and> yaml_get ''images'' cloudbuild_vertex = YNull
   \<and> yaml_get ''timeout'' cloudbuild_vertex = YStr ''10800s''"
    by code_simp
  have v: "config_variables cloudbuild_vertex = [''_REGION'', ''PROJECT_ID'']"
    by code_simp
  have b: "set (config_variables cloudbuild_vertex) = {''PROJECT_ID'', ''_REGION''}"
    unfolding v by auto
  have c: "filter (\<lambda>v. take 1 v = ''_'') (config_variables cloudbuild_vertex) = [''_REGION'']"
    unfolding v by simp
  have d: "CHR '','' \<notin> set region \<longrightarrow>
        substitution_pairs (SUBSTITUTIONS region) = [(''_REGION'', region)]"
    by (simp add: substitution_pairs_def SUBSTITUTIONS_def split_commas_no_comma)
  have e: "CHR '' '' \<notin> set region \<and> CHR ''\<newline>'' \<notin> set region \<longrightarrow>
        split_words [] (gcloud_builds_submit region)
          = [''gcloud'', ''builds'', ''submit'', ''.'', ''--config'', ''cloudbuild_vertex.yaml'',
             ''--substitutions'', ''_REGION='' @ region]"
    by (simp add: gcloud_builds_submit_def SUBSTITUTIONS_def split_words_no_blank)
  from a b c d e show ?thesis by blast
qed

theorem cloud_build_schema_fields_witness:
  "CHR '','' \<notin> set ''us-central1'' \<and> CHR '' '' \<notin> set ''us-central1''
   \<and> CHR ''\<newline>'' \<notin> set ''us-central1''
   \<and> substitution_pairs (SUBSTITUTIONS ''us-central1'') = [(''_REGION'', ''us-central1'')]
   \<and> split_words [] (gcloud_builds_submit ''us-central1'')
        = [''gcloud'', ''builds'', ''submit'', ''.'', ''--config'', ''cloudbuild_vertex.yaml'',
           ''--substitutions'', ''_REGION=us-central1'']"
proof -
  have h: "CHR '','' \<notin> set ''us-central1''" "CHR '' '' \<notin> set ''us-central1''"
    "CHR ''\<newline>'' \<notin> set ''us-central1''"
    by simp_all
  note inst = cloud_build_schema_fields [of "''us-central1''"]
  have p: "substitution_pairs (SUBSTITUTIONS ''us-central1'') = [(''_REGION'', ''us-central1'')]"
    using inst h(1) by blast
  have w: "split_words [] (gcloud_builds_submit ''us-central1'')
        = [''gcloud'', ''builds'', ''submit'', ''.'', ''--config'', ''cloudbuild_vertex.yaml'',
           ''--substitutions'', ''_REGION='' @ ''us-central1'']"
    using inst h(2,3) by blast
  have j: "''_REGION='' @ ''us-central1'' = ''_REGION=us-central1''" by simp
  from h p w show ?thesis unfolding j by blast
qed

end
